theory Spec2Isabelle
  imports Complex_Main
begin

unbundle bit_operations_syntax

section \<open>GcodeHandlers: a shallow embedding of \<^verbatim>\<open>octoprint_excluderegion/GcodeHandlers.py\<close>\<close>

text \<open>
  Conventions of the embedding.
  \<^item> Python floats are modelled as \<^typ>\<open>real\<close>: rounding, infinities, NaN and signed
    zeros are not represented. The statements below are therefore about concrete inputs
    whose decisive steps do not depend on rounding, or about the control flow and the
    strings; none rests on a comparison of rounded values at its boundary.
    Python ints are \<^typ>\<open>int\<close>.
  \<^item> Python strings are \<^typ>\<open>string\<close>; a character is a code point below 256.
  \<^item> An exception raised by the code is the \<open>Inl\<close> branch of a sum type.
  \<^item> The regular expression module behaves as in Python 3.7 and later (a pattern
    that matches the empty string splits the subject there).
  \<^item> The classes \<^verbatim>\<open>ExcludeRegionState\<close>, \<^verbatim>\<open>Position\<close>, \<^verbatim>\<open>AxisPosition\<close> and
    \<^verbatim>\<open>RetractionState\<close> live in other modules. Their attributes read by this module are
    record fields; their methods are the fields of a record of functions that every
    handler takes as its first argument. Logging is not modelled.
\<close>

subsection \<open>Exceptions\<close>

datatype error = ZeroDivisionError | ValueError | IndexError

subsection \<open>Module constants\<close>

definition INCHES_PER_MM :: real where
  "INCHES_PER_MM = 25.4"

definition MM_PER_ARC_SEGMENT :: real where
  "MM_PER_ARC_SEGMENT = 1"

definition TWO_PI :: real where
  "TWO_PI = 2 * pi"

subsection \<open>Functions of the \<^verbatim>\<open>math\<close> module\<close>

definition hypot :: "real \<Rightarrow> real \<Rightarrow> real" where
  "hypot a b = sqrt (a * a + b * b)"

text \<open>\<^verbatim>\<open>math.atan2(y, x)\<close>: the angle of the point \<open>(x, y)\<close>, in \<open>(-pi, pi]\<close>, and 0 at the origin.\<close>

definition atan2 :: "real \<Rightarrow> real \<Rightarrow> real" where
  "atan2 y x =
     (if 0 < x then arctan (y / x)
      else if x < 0 then (if 0 \<le> y then arctan (y / x) + pi else arctan (y / x) - pi)
      else if 0 < y then pi / 2
      else if y < 0 then - (pi / 2)
      else 0)"

text \<open>\<^verbatim>\<open>math.sqrt\<close> raises \<^verbatim>\<open>ValueError: math domain error\<close> on a negative argument.\<close>

definition math_sqrt :: "real \<Rightarrow> error + real" where
  "math_sqrt v = (if v < 0 then Inl ValueError else Inr (sqrt v))"

text \<open>Float division raises \<^verbatim>\<open>ZeroDivisionError\<close> on a zero divisor.\<close>

definition float_div :: "real \<Rightarrow> real \<Rightarrow> error + real" where
  "float_div a b = (if b = 0 then Inl ZeroDivisionError else Inr (a / b))"

subsection \<open>The state object and its collaborators\<close>

record 'x AxisPosition =
  current :: real
  internals :: 'x

record 'x Position =
  X_AXIS :: "'x AxisPosition"
  Y_AXIS :: "'x AxisPosition"
  Z_AXIS :: "'x AxisPosition"
  E_AXIS :: "'x AxisPosition"

record ('x, 'c) ExcludeRegionState =
  numCommands :: int
  position :: "'x Position"
  privateState :: 'c

record RetractionState =
  firmwareRetract :: bool
  originalCommand :: string

text \<open>
  The methods of the absent classes. A method that may mutate the state object takes
  the state and returns the new one; \<^verbatim>\<open>None\<close> is \<open>None\<close>, any other returned object
  (a list of commands, the ignore marker) is \<open>Some\<close> of a value of type \<open>'r\<close>.
  The methods are assumed to return. The arguments that the module always passes as
  \<^verbatim>\<open>None\<close> (the second of \<^verbatim>\<open>recordRetraction\<close>, the first of
  \<^verbatim>\<open>recoverRetractionIfNeeded\<close>) are left out.
\<close>

record ('x, 'c, 'r) Collaborators =
  logicalToNative :: "'x AxisPosition \<Rightarrow> real \<Rightarrow> real"
  setHome :: "'x AxisPosition \<Rightarrow> 'x AxisPosition"
  setLogicalPosition :: "real \<Rightarrow> 'x AxisPosition \<Rightarrow> 'x AxisPosition"
  setLogicalOffsetPosition :: "real \<Rightarrow> 'x AxisPosition \<Rightarrow> 'x AxisPosition"
  setHomeOffset :: "real \<Rightarrow> 'x AxisPosition \<Rightarrow> 'x AxisPosition"
  processLinearMoves ::
    "string \<Rightarrow> real option \<Rightarrow> real option \<Rightarrow> real option \<Rightarrow> real option list \<Rightarrow>
     ('x, 'c) ExcludeRegionState \<Rightarrow> 'r option \<times> ('x, 'c) ExcludeRegionState"
  processExtendedGcode ::
    "string \<Rightarrow> string \<Rightarrow> string option \<Rightarrow>
     ('x, 'c) ExcludeRegionState \<Rightarrow> 'r option \<times> ('x, 'c) ExcludeRegionState"
  recordRetraction ::
    "RetractionState \<Rightarrow> ('x, 'c) ExcludeRegionState \<Rightarrow> 'r option \<times> ('x, 'c) ExcludeRegionState"
  recoverRetractionIfNeeded ::
    "string \<Rightarrow> bool \<Rightarrow> ('x, 'c) ExcludeRegionState \<Rightarrow> 'r option \<times> ('x, 'c) ExcludeRegionState"
  ignoreGcodeCommand ::
    "('x, 'c) ExcludeRegionState \<Rightarrow> 'r option \<times> ('x, 'c) ExcludeRegionState"
  setUnitMultiplier :: "real \<Rightarrow> ('x, 'c) ExcludeRegionState \<Rightarrow> ('x, 'c) ExcludeRegionState"
  setAbsoluteMode :: "bool \<Rightarrow> ('x, 'c) ExcludeRegionState \<Rightarrow> ('x, 'c) ExcludeRegionState"

subsection \<open>planArc\<close>

text \<open>Lines 89 to 101: the angular travel, with the full-circle case.\<close>

definition rawAngularTravel ::
  "real \<Rightarrow> real \<Rightarrow> real \<Rightarrow> real \<Rightarrow> real \<Rightarrow> real \<Rightarrow> bool \<Rightarrow> real" where
  "rawAngularTravel x y endX endY i j clockwise =
     (let centerX = x + i;
          centerY = y + j;
          rtX = endX - centerX;
          rtY = endY - centerY;
          a0 = atan2 (- i * rtY + j * rtX) (- i * rtX - j * rtY);
          a1 = (if a0 < 0 then a0 + TWO_PI else a0)
      in if clockwise then a1 - TWO_PI else a1)"

definition angularTravel ::
  "real \<Rightarrow> real \<Rightarrow> real \<Rightarrow> real \<Rightarrow> real \<Rightarrow> real \<Rightarrow> bool \<Rightarrow> real" where
  "angularTravel x y endX endY i j clockwise =
     (let a = rawAngularTravel x y endX endY i j clockwise
      in if a = 0 \<and> x = endX \<and> y = endY then TWO_PI else a)"

text \<open>Lines 104 and 105: \<^verbatim>\<open>int(min(math.ceil(arcLength / MM_PER_ARC_SEGMENT), 2))\<close>.\<close>

definition numSegments ::
  "real \<Rightarrow> real \<Rightarrow> real \<Rightarrow> real \<Rightarrow> real \<Rightarrow> real \<Rightarrow> bool \<Rightarrow> int" where
  "numSegments x y endX endY i j clockwise =
     (let radius = hypot i j;
          arcLength = angularTravel x y endX endY i j clockwise * radius
      in min \<lceil>arcLength / MM_PER_ARC_SEGMENT\<rceil> 2)"

text \<open>The loop of lines 112 to 114, with the number of iterations left as first argument.\<close>

fun arcLoop :: "nat \<Rightarrow> real \<Rightarrow> real \<Rightarrow> real \<Rightarrow> real \<Rightarrow> real \<Rightarrow> real list \<Rightarrow> real list" where
  "arcLoop 0 angle angularIncrement centerX centerY radius rval = rval"
| "arcLoop (Suc n) angle angularIncrement centerX centerY radius rval =
     (let angle' = angle + angularIncrement
      in arcLoop n angle' angularIncrement centerX centerY radius
           (rval @ [centerX + cos angle' * radius, centerY + sin angle' * radius]))"

definition planArc ::
  "('x, 'c) ExcludeRegionState \<Rightarrow> real \<Rightarrow> real \<Rightarrow> real \<Rightarrow> real \<Rightarrow> bool \<Rightarrow> error + real list" where
  "planArc s endX endY i j clockwise =
     (let x = current (X_AXIS (position s));
          y = current (Y_AXIS (position s));
          radius = hypot i j;
          centerX = x + i;
          centerY = y + j;
          travel = angularTravel x y endX endY i j clockwise;
          n = numSegments x y endX endY i j clockwise;
          angle = atan2 (- i) (- j)
      in case float_div travel (real_of_int (n - 1)) of
           Inl e \<Rightarrow> Inl e
         | Inr angularIncrement \<Rightarrow>
             Inr (arcLoop (nat (n - 1)) angle angularIncrement centerX centerY radius []
                  @ [endX, endY]))"

subsection \<open>_computeCenterOffsets\<close>

text \<open>Line 215: \<^verbatim>\<open>(1 if clockwise else 0) ^ (-1 if (radius < 0) else 1)\<close>, on Python ints.\<close>

definition directionFlag :: "bool \<Rightarrow> real \<Rightarrow> int" where
  "directionFlag clockwise radius =
     (if clockwise then 1 else 0) XOR (if radius < 0 then - 1 else 1)"

definition computeCenterOffsets ::
  "('x, 'c) ExcludeRegionState \<Rightarrow> real \<Rightarrow> real \<Rightarrow> real \<Rightarrow> bool \<Rightarrow> error + real \<times> real" where
  "computeCenterOffsets s x y radius clockwise =
     (let p1 = current (X_AXIS (position s));
          q1 = current (Y_AXIS (position s));
          p2 = x;
          q2 = y
      in if radius \<noteq> 0 \<and> (p1 \<noteq> p2 \<or> q1 \<noteq> q2) then
           (let e = directionFlag clockwise radius;
                deltaX = p2 - p1;
                deltaY = q2 - q1;
                dist = hypot deltaX deltaY;
                halfDist = dist / 2
            in case math_sqrt (radius * radius - halfDist * halfDist) of
                 Inl err \<Rightarrow> Inl err
               | Inr h \<Rightarrow>
                   (let midX = (p1 + p2) / 2;
                        midY = (q1 + q2) / 2
                    in case float_div (- deltaY) dist of
                         Inl err \<Rightarrow> Inl err
                       | Inr sx \<Rightarrow>
                           (case float_div (- deltaX) dist of
                              Inl err \<Rightarrow> Inl err
                            | Inr sy \<Rightarrow>
                                (let centerX = midX + real_of_int e * h * sx;
                                     centerY = midY + real_of_int e * h * sy
                                 in Inr (centerX - p1, centerY - q1)))))
         else Inr (0, 0))"

subsection \<open>Character classes and string methods\<close>

text \<open>\<^verbatim>\<open>[A-Za-z]\<close>, \<^verbatim>\<open>[0-9]\<close> and \<^verbatim>\<open>\s\<close> (the white space of a Python 3 \<^verbatim>\<open>str\<close> pattern).\<close>

definition isLetter :: "char \<Rightarrow> bool" where
  "isLetter c = (let n = (of_char c :: nat) in (65 \<le> n \<and> n \<le> 90) \<or> (97 \<le> n \<and> n \<le> 122))"

definition isDigit :: "char \<Rightarrow> bool" where
  "isDigit c = (let n = (of_char c :: nat) in 48 \<le> n \<and> n \<le> 57)"

definition isSpace :: "char \<Rightarrow> bool" where
  "isSpace c = (let n = (of_char c :: nat) in (9 \<le> n \<and> n \<le> 13) \<or> (28 \<le> n \<and> n \<le> 32) \<or> n = 133 \<or> n = 160)"

text \<open>
  \<^verbatim>\<open>str.upper\<close> on ASCII letters. The module compares an upper-cased string only with
  the capitals E, F, I, J, L, P, R, X, Y, Z at its first position, and no other character
  below 256 upper-cases to a string that begins with one of them.
\<close>

definition toUpper :: "char \<Rightarrow> char" where
  "toUpper c = (let n = (of_char c :: nat) in if 97 \<le> n \<and> n \<le> 122 then char_of (n - 32) else c)"

definition upper :: "string \<Rightarrow> string" where
  "upper str = map toUpper str"

definition startswith :: "string \<Rightarrow> string \<Rightarrow> bool" where
  "startswith str pre = (take (length pre) str = pre)"

subsection \<open>REGEX_SPLIT\<close>

text \<open>
  A match of \<^verbatim>\<open>(?<!^)\s*(?=[A-Za-z])\<close> at the current position: \<open>atStart\<close> says that
  the position is 0, \<open>cs\<close> is the input from the position on. The result is the input
  after the match. The greedy \<^verbatim>\<open>\s*\<close> takes the whole run of white space; giving
  some of it back leaves white space where the look-ahead wants a letter.
\<close>

definition REGEX_SPLIT_match :: "bool \<Rightarrow> string \<Rightarrow> string option" where
  "REGEX_SPLIT_match atStart cs =
     (if atStart then None
      else case dropWhile isSpace cs of
             [] \<Rightarrow> None
           | c # r \<Rightarrow> if isLetter c then Some (c # r) else None)"

text \<open>
  \<^verbatim>\<open>REGEX_SPLIT.split\<close> as Python 3.7 and later run it: the matches are searched from
  left to right, the text between two matches is a piece, and after an empty match the
  next match must end further right (\<open>mustAdvance\<close>). \<open>tok\<close> is the piece read so far.
\<close>

function splitLoop :: "bool \<Rightarrow> bool \<Rightarrow> string \<Rightarrow> string \<Rightarrow> string list" where
  "splitLoop atStart mustAdvance tok [] = [tok]"
| "splitLoop atStart mustAdvance tok (c # cs) =
     (case REGEX_SPLIT_match atStart (c # cs) of
        None \<Rightarrow> splitLoop False False (tok @ [c]) cs
      | Some r \<Rightarrow>
          if length r = length (c # cs) then
            (if mustAdvance then splitLoop False False (tok @ [c]) cs
             else tok # splitLoop False True [] (c # cs))
          else tok # splitLoop False False [] r)"
  by pat_completeness auto
termination
proof (relation "measure (\<lambda>(atStart, mustAdvance, tok, cs). 2 * length cs + (if mustAdvance then 0 else 1))")
  show "wf (measure (\<lambda>(atStart, mustAdvance, tok, cs). 2 * length cs + (if mustAdvance then 0 else 1)))"
    by simp
next
  fix atStart mustAdvance :: bool and tok cs :: string and c :: char
  show "((False, False, tok @ [c], cs), (atStart, mustAdvance, tok, c # cs))
        \<in> measure (\<lambda>(atStart, mustAdvance, tok, cs). 2 * length cs + (if mustAdvance then 0 else 1))"
    by simp
next
  fix atStart mustAdvance :: bool and tok cs :: string and c :: char and r :: string
  assume "mustAdvance"
  then show "((False, False, tok @ [c], cs), (atStart, mustAdvance, tok, c # cs))
        \<in> measure (\<lambda>(atStart, mustAdvance, tok, cs). 2 * length cs + (if mustAdvance then 0 else 1))"
    by simp
next
  fix atStart mustAdvance :: bool and tok cs :: string and c :: char and r :: string
  assume "\<not> mustAdvance"
  then show "((False, True, [], c # cs), (atStart, mustAdvance, tok, c # cs))
        \<in> measure (\<lambda>(atStart, mustAdvance, tok, cs). 2 * length cs + (if mustAdvance then 0 else 1))"
    by simp
next
  fix atStart mustAdvance :: bool and tok cs :: string and c :: char and r :: string
  assume m: "REGEX_SPLIT_match atStart (c # cs) = Some r" and l: "length r \<noteq> length (c # cs)"
  have "length (dropWhile isSpace (c # cs)) \<le> length (c # cs)"
    by (rule length_dropWhile_le)
  moreover from m have "r = dropWhile isSpace (c # cs)"
    by (auto simp: REGEX_SPLIT_match_def split: if_splits list.splits)
  ultimately have "length r < length (c # cs)"
    using l by simp
  then show "((False, False, [], r), (atStart, mustAdvance, tok, c # cs))
        \<in> measure (\<lambda>(atStart, mustAdvance, tok, cs). 2 * length cs + (if mustAdvance then 0 else 1))"
    by simp
qed

definition REGEX_SPLIT_split :: "string \<Rightarrow> string list" where
  "REGEX_SPLIT_split cmd = splitLoop True False [] cmd"

subsection \<open>REGEX_FLOAT_ARG and float\<close>

text \<open>
  The text matched by \<^verbatim>\<open>[0-9]*\.?[0-9]+\<close> at the start of the input: the digits, a dot
  and the digits after it when there is at least one; otherwise the leading digits alone
  (the last of them is given back to \<^verbatim>\<open>[0-9]+\<close>), when there is at least one.
\<close>

definition unsignedMatch :: "string \<Rightarrow> string option" where
  "unsignedMatch cs =
     (let ds = takeWhile isDigit cs;
          r = dropWhile isDigit cs;
          whole = (if ds = [] then None else Some ds)
      in case r of
           [] \<Rightarrow> whole
         | c # r' \<Rightarrow>
             if c = CHR ''.'' \<and> takeWhile isDigit r' \<noteq> [] then Some (ds @ c # takeWhile isDigit r')
             else whole)"

text \<open>\<^verbatim>\<open>REGEX_FLOAT_PATTERN\<close>: an optional sign first, given back when nothing matches after it.\<close>

definition REGEX_FLOAT_PATTERN_match :: "string \<Rightarrow> string option" where
  "REGEX_FLOAT_PATTERN_match cs =
     (case cs of
        [] \<Rightarrow> None
      | c # r \<Rightarrow>
          if c = CHR ''-'' \<or> c = CHR ''+'' then
            (case unsignedMatch r of Some v \<Rightarrow> Some (c # v) | None \<Rightarrow> unsignedMatch cs)
          else unsignedMatch cs)"

text \<open>\<^verbatim>\<open>REGEX_FLOAT_ARG.search\<close>: the groups \<^verbatim>\<open>label\<close> and \<^verbatim>\<open>value\<close>, or \<open>None\<close>.\<close>

definition REGEX_FLOAT_ARG_search :: "string \<Rightarrow> (char \<times> string) option" where
  "REGEX_FLOAT_ARG_search tok =
     (case tok of
        [] \<Rightarrow> None
      | l # r \<Rightarrow>
          if isLetter l then
            (case REGEX_FLOAT_PATTERN_match (dropWhile isSpace r) of
               None \<Rightarrow> None
             | Some v \<Rightarrow> Some (l, v))
          else None)"

text \<open>\<^verbatim>\<open>float\<close> on a text of the shape above, as the exact decimal value.\<close>

definition digitsValue :: "string \<Rightarrow> nat" where
  "digitsValue ds = foldl (\<lambda>acc c. 10 * acc + ((of_char c :: nat) - 48)) 0 ds"

definition unsignedFloat :: "string \<Rightarrow> real" where
  "unsignedFloat v =
     (let ds = takeWhile isDigit v;
          fs = drop 1 (dropWhile isDigit v)
      in real (digitsValue ds) + real (digitsValue fs) / 10 ^ length fs)"

definition float :: "string \<Rightarrow> real" where
  "float v =
     (case v of
        [] \<Rightarrow> 0
      | c # r \<Rightarrow>
          if c = CHR ''-'' then - unsignedFloat r
          else if c = CHR ''+'' then unsignedFloat r
          else unsignedFloat v)"

subsection \<open>_handle_G0 and _handle_G1\<close>

text \<open>The local variables of \<^verbatim>\<open>_handle_G0\<close> that the loop assigns.\<close>

record LinearArgs =
  extruderPosition :: "real option"
  feedRate :: "real option"
  xArg :: "real option"
  yArg :: "real option"
  zArg :: "real option"

definition noLinearArgs :: LinearArgs where
  "noLinearArgs =
     \<lparr>extruderPosition = None, feedRate = None, xArg = None, yArg = None, zArg = None\<rparr>"

text \<open>One iteration of the loop of lines 162 to 176, on the piece \<^verbatim>\<open>cmdArgs[index]\<close>.\<close>

definition G0_arg :: "LinearArgs \<Rightarrow> string \<Rightarrow> LinearArgs" where
  "G0_arg a tok =
     (case REGEX_FLOAT_ARG_search tok of
        None \<Rightarrow> a
      | Some (l, v) \<Rightarrow>
          (let label = toUpper l;
               val = float v
           in if label = CHR ''E'' then a\<lparr>extruderPosition := Some val\<rparr>
              else if label = CHR ''F'' then a\<lparr>feedRate := Some val\<rparr>
              else if label = CHR ''X'' then a\<lparr>xArg := Some val\<rparr>
              else if label = CHR ''Y'' then a\<lparr>yArg := Some val\<rparr>
              else if label = CHR ''Z'' then a\<lparr>zArg := Some val\<rparr>
              else a))"

definition G0_args :: "string \<Rightarrow> LinearArgs" where
  "G0_args cmd = foldl G0_arg noLinearArgs (drop 1 (REGEX_SPLIT_split cmd))"

definition handle_G0 ::
  "('x, 'c, 'r) Collaborators \<Rightarrow> string \<Rightarrow> string \<Rightarrow> string option \<Rightarrow>
   ('x, 'c) ExcludeRegionState \<Rightarrow> (error + 'r option) \<times> ('x, 'c) ExcludeRegionState" where
  "handle_G0 C cmd gcode subcode s =
     (let a = G0_args cmd
      in case processLinearMoves C cmd (extruderPosition a) (feedRate a) (zArg a)
                [xArg a, yArg a] s of
           (r, s') \<Rightarrow> (Inr r, s'))"

definition handle_G1 ::
  "('x, 'c, 'r) Collaborators \<Rightarrow> string \<Rightarrow> string \<Rightarrow> string option \<Rightarrow>
   ('x, 'c) ExcludeRegionState \<Rightarrow> (error + 'r option) \<times> ('x, 'c) ExcludeRegionState" where
  "handle_G1 C cmd gcode subcode s = handle_G0 C cmd gcode subcode s"

subsection \<open>_handle_G2 and _handle_G3\<close>

record ArcArgs =
  arcExtruderPosition :: "real option"
  arcFeedRate :: "real option"
  arcX :: real
  arcY :: real
  arcZ :: real
  arcRadius :: "real option"
  arcI :: real
  arcJ :: real

definition initialArcArgs :: "('x, 'c) ExcludeRegionState \<Rightarrow> ArcArgs" where
  "initialArcArgs s =
     \<lparr>arcExtruderPosition = None, arcFeedRate = None,
      arcX = current (X_AXIS (position s)),
      arcY = current (Y_AXIS (position s)),
      arcZ = current (Z_AXIS (position s)),
      arcRadius = None, arcI = 0, arcJ = 0\<rparr>"

text \<open>
  One iteration of the loop of lines 253 to 273: the chain of \<^verbatim>\<open>if\<close> and \<^verbatim>\<open>elif\<close>
  for X, Y, Z, E, F and R, then the two separate tests for I and J.
\<close>

definition G2_arg ::
  "('x, 'c, 'r) Collaborators \<Rightarrow> ('x, 'c) ExcludeRegionState \<Rightarrow> ArcArgs \<Rightarrow> string \<Rightarrow> ArcArgs" where
  "G2_arg C s a tok =
     (case REGEX_FLOAT_ARG_search tok of
        None \<Rightarrow> a
      | Some (l, v) \<Rightarrow>
          (let label = toUpper l;
               val = float v;
               a1 = (if label = CHR ''X'' then a\<lparr>arcX := logicalToNative C (X_AXIS (position s)) val\<rparr>
                     else if label = CHR ''Y'' then a\<lparr>arcY := logicalToNative C (Y_AXIS (position s)) val\<rparr>
                     else if label = CHR ''Z'' then a\<lparr>arcZ := logicalToNative C (Z_AXIS (position s)) val\<rparr>
                     else if label = CHR ''E'' then
                       a\<lparr>arcExtruderPosition := Some (logicalToNative C (E_AXIS (position s)) val)\<rparr>
                     else if label = CHR ''F'' then a\<lparr>arcFeedRate := Some val\<rparr>
                     else if label = CHR ''R'' then a\<lparr>arcRadius := Some val\<rparr>
                     else a);
               a2 = (if label = CHR ''I'' then a1\<lparr>arcI := logicalToNative C (X_AXIS (position s)) val\<rparr>
                     else a1)
           in if label = CHR ''J'' then a2\<lparr>arcJ := logicalToNative C (Y_AXIS (position s)) val\<rparr>
              else a2))"

definition G2_args ::
  "('x, 'c, 'r) Collaborators \<Rightarrow> ('x, 'c) ExcludeRegionState \<Rightarrow> string \<Rightarrow> ArcArgs" where
  "G2_args C s cmd = foldl (G2_arg C s) (initialArcArgs s) (drop 1 (REGEX_SPLIT_split cmd))"

definition handle_G2 ::
  "('x, 'c, 'r) Collaborators \<Rightarrow> string \<Rightarrow> string \<Rightarrow> string option \<Rightarrow>
   ('x, 'c) ExcludeRegionState \<Rightarrow> (error + 'r option) \<times> ('x, 'c) ExcludeRegionState" where
  "handle_G2 C cmd gcode subcode s =
     (let clockwise = (gcode = ''G2'');
          a = G2_args C s cmd
      in case (case arcRadius a of
                 None \<Rightarrow> Inr (arcI a, arcJ a)
               | Some radius \<Rightarrow> computeCenterOffsets s (arcX a) (arcY a) radius clockwise) of
           Inl e \<Rightarrow> (Inl e, s)
         | Inr (i, j) \<Rightarrow>
             if i \<noteq> 0 \<or> j \<noteq> 0 then
               (case planArc s (arcX a) (arcY a) i j clockwise of
                  Inl e \<Rightarrow> (Inl e, s)
                | Inr xyPairs \<Rightarrow>
                    (case processLinearMoves C cmd (arcExtruderPosition a) (arcFeedRate a)
                            (Some (arcZ a)) (map Some xyPairs) s of
                       (r, s') \<Rightarrow> (Inr r, s')))
             else (Inr None, s))"

definition handle_G3 ::
  "('x, 'c, 'r) Collaborators \<Rightarrow> string \<Rightarrow> string \<Rightarrow> string option \<Rightarrow>
   ('x, 'c) ExcludeRegionState \<Rightarrow> (error + 'r option) \<times> ('x, 'c) ExcludeRegionState" where
  "handle_G3 C cmd gcode subcode s = handle_G2 C cmd gcode subcode s"

subsection \<open>_handle_G10 and _handle_G11\<close>

text \<open>
  The loop of lines 303 to 306 over the pieces from index 1 on. \<open>Inr True\<close>: a piece
  begins with P or L and the handler returns \<^verbatim>\<open>None\<close>; \<open>Inr False\<close>: the loop ends.
  Indexing an empty piece at 0 raises \<^verbatim>\<open>IndexError\<close>.
\<close>

fun G10_scan :: "string list \<Rightarrow> error + bool" where
  "G10_scan [] = Inr False"
| "G10_scan (tok # toks) =
     (case tok of
        [] \<Rightarrow> Inl IndexError
      | c # r \<Rightarrow>
          (let argType = toUpper c
           in if argType = CHR ''P'' \<or> argType = CHR ''L'' then Inr True else G10_scan toks))"

definition handle_G10 ::
  "('x, 'c, 'r) Collaborators \<Rightarrow> string \<Rightarrow> string \<Rightarrow> string option \<Rightarrow>
   ('x, 'c) ExcludeRegionState \<Rightarrow> (error + 'r option) \<times> ('x, 'c) ExcludeRegionState" where
  "handle_G10 C cmd gcode subcode s =
     (case G10_scan (drop 1 (REGEX_SPLIT_split cmd)) of
        Inl e \<Rightarrow> (Inl e, s)
      | Inr True \<Rightarrow> (Inr None, s)
      | Inr False \<Rightarrow>
          (case recordRetraction C \<lparr>firmwareRetract = True, originalCommand = cmd\<rparr> s of
             (None, s') \<Rightarrow> (case ignoreGcodeCommand C s' of (r, s'') \<Rightarrow> (Inr r, s''))
           | (Some returnCommands, s') \<Rightarrow> (Inr (Some returnCommands), s')))"

definition handle_G11 ::
  "('x, 'c, 'r) Collaborators \<Rightarrow> string \<Rightarrow> string \<Rightarrow> string option \<Rightarrow>
   ('x, 'c) ExcludeRegionState \<Rightarrow> (error + 'r option) \<times> ('x, 'c) ExcludeRegionState" where
  "handle_G11 C cmd gcode subcode s =
     (case recoverRetractionIfNeeded C cmd True s of
        (None, s') \<Rightarrow> (case ignoreGcodeCommand C s' of (r, s'') \<Rightarrow> (Inr r, s''))
      | (Some returnCommands, s') \<Rightarrow> (Inr (Some returnCommands), s'))"

subsection \<open>_handle_G20, _handle_G21, _handle_G90 and _handle_G91\<close>

definition handle_G20 ::
  "('x, 'c, 'r) Collaborators \<Rightarrow> string \<Rightarrow> string \<Rightarrow> string option \<Rightarrow>
   ('x, 'c) ExcludeRegionState \<Rightarrow> (error + 'r option) \<times> ('x, 'c) ExcludeRegionState" where
  "handle_G20 C cmd gcode subcode s = (Inr None, setUnitMultiplier C INCHES_PER_MM s)"

definition handle_G21 ::
  "('x, 'c, 'r) Collaborators \<Rightarrow> string \<Rightarrow> string \<Rightarrow> string option \<Rightarrow>
   ('x, 'c) ExcludeRegionState \<Rightarrow> (error + 'r option) \<times> ('x, 'c) ExcludeRegionState" where
  "handle_G21 C cmd gcode subcode s = (Inr None, setUnitMultiplier C 1 s)"

definition handle_G90 ::
  "('x, 'c, 'r) Collaborators \<Rightarrow> string \<Rightarrow> string \<Rightarrow> string option \<Rightarrow>
   ('x, 'c) ExcludeRegionState \<Rightarrow> (error + 'r option) \<times> ('x, 'c) ExcludeRegionState" where
  "handle_G90 C cmd gcode subcode s = (Inr None, setAbsoluteMode C True s)"

definition handle_G91 ::
  "('x, 'c, 'r) Collaborators \<Rightarrow> string \<Rightarrow> string \<Rightarrow> string option \<Rightarrow>
   ('x, 'c) ExcludeRegionState \<Rightarrow> (error + 'r option) \<times> ('x, 'c) ExcludeRegionState" where
  "handle_G91 C cmd gcode subcode s = (Inr None, setAbsoluteMode C False s)"

subsection \<open>_handle_G28\<close>

text \<open>One iteration of the loop of lines 354 to 361, on the flags (homeX, homeY, homeZ).\<close>

definition G28_arg :: "bool \<times> bool \<times> bool \<Rightarrow> string \<Rightarrow> bool \<times> bool \<times> bool" where
  "G28_arg flags arg =
     (case flags of
        (homeX, homeY, homeZ) \<Rightarrow>
          (let arg' = upper arg
           in if startswith arg' ''X'' then (True, homeY, homeZ)
              else if startswith arg' ''Y'' then (homeX, True, homeZ)
              else if startswith arg' ''Z'' then (homeX, homeY, True)
              else (homeX, homeY, homeZ)))"

definition G28_flags :: "string \<Rightarrow> bool \<times> bool \<times> bool" where
  "G28_flags cmd =
     (case foldl G28_arg (False, False, False) (REGEX_SPLIT_split cmd) of
        (homeX, homeY, homeZ) \<Rightarrow>
          if \<not> (homeX \<or> homeY \<or> homeZ) then (True, True, True) else (homeX, homeY, homeZ))"

definition handle_G28 ::
  "('x, 'c, 'r) Collaborators \<Rightarrow> string \<Rightarrow> string \<Rightarrow> string option \<Rightarrow>
   ('x, 'c) ExcludeRegionState \<Rightarrow> (error + 'r option) \<times> ('x, 'c) ExcludeRegionState" where
  "handle_G28 C cmd gcode subcode s =
     (case G28_flags cmd of
        (homeX, homeY, homeZ) \<Rightarrow>
          (let p0 = position s;
               p1 = (if homeX then p0\<lparr>X_AXIS := setHome C (X_AXIS p0)\<rparr> else p0);
               p2 = (if homeY then p1\<lparr>Y_AXIS := setHome C (Y_AXIS p1)\<rparr> else p1);
               p3 = (if homeZ then p2\<lparr>Z_AXIS := setHome C (Z_AXIS p2)\<rparr> else p2)
           in (Inr None, s\<lparr>position := p3\<rparr>)))"

subsection \<open>_handle_G92 and _handle_M206\<close>

definition G92_arg ::
  "('x, 'c, 'r) Collaborators \<Rightarrow> 'x Position \<Rightarrow> string \<Rightarrow> 'x Position" where
  "G92_arg C p tok =
     (case REGEX_FLOAT_ARG_search tok of
        None \<Rightarrow> p
      | Some (l, v) \<Rightarrow>
          (let label = toUpper l;
               val = float v
           in if label = CHR ''E'' then p\<lparr>E_AXIS := setLogicalPosition C val (E_AXIS p)\<rparr>
              else if label = CHR ''X'' then p\<lparr>X_AXIS := setLogicalOffsetPosition C val (X_AXIS p)\<rparr>
              else if label = CHR ''Y'' then p\<lparr>Y_AXIS := setLogicalOffsetPosition C val (Y_AXIS p)\<rparr>
              else if label = CHR ''Z'' then p\<lparr>Z_AXIS := setLogicalOffsetPosition C val (Z_AXIS p)\<rparr>
              else p))"

definition handle_G92 ::
  "('x, 'c, 'r) Collaborators \<Rightarrow> string \<Rightarrow> string \<Rightarrow> string option \<Rightarrow>
   ('x, 'c) ExcludeRegionState \<Rightarrow> (error + 'r option) \<times> ('x, 'c) ExcludeRegionState" where
  "handle_G92 C cmd gcode subcode s =
     (Inr None, s\<lparr>position := foldl (G92_arg C) (position s) (drop 1 (REGEX_SPLIT_split cmd))\<rparr>)"

definition M206_arg ::
  "('x, 'c, 'r) Collaborators \<Rightarrow> 'x Position \<Rightarrow> string \<Rightarrow> 'x Position" where
  "M206_arg C p tok =
     (case REGEX_FLOAT_ARG_search tok of
        None \<Rightarrow> p
      | Some (l, v) \<Rightarrow>
          (let label = toUpper l;
               val = float v
           in if label = CHR ''X'' then p\<lparr>X_AXIS := setHomeOffset C val (X_AXIS p)\<rparr>
              else if label = CHR ''Y'' then p\<lparr>Y_AXIS := setHomeOffset C val (Y_AXIS p)\<rparr>
              else if label = CHR ''Z'' then p\<lparr>Z_AXIS := setHomeOffset C val (Z_AXIS p)\<rparr>
              else p))"

definition handle_M206 ::
  "('x, 'c, 'r) Collaborators \<Rightarrow> string \<Rightarrow> string \<Rightarrow> string option \<Rightarrow>
   ('x, 'c) ExcludeRegionState \<Rightarrow> (error + 'r option) \<times> ('x, 'c) ExcludeRegionState" where
  "handle_M206 C cmd gcode subcode s =
     (Inr None, s\<lparr>position := foldl (M206_arg C) (position s) (drop 1 (REGEX_SPLIT_split cmd))\<rparr>)"

subsection \<open>handleGcode\<close>

text \<open>
  \<^verbatim>\<open>getattr(self, "_handle_" + gcode, self.state.processExtendedGcode)\<close>: the attributes
  of the object whose names begin with \<^verbatim>\<open>_handle_\<close> are the thirteen handlers.
\<close>

definition handlerFor ::
  "('x, 'c, 'r) Collaborators \<Rightarrow> string \<Rightarrow> string \<Rightarrow> string \<Rightarrow> string option \<Rightarrow>
   ('x, 'c) ExcludeRegionState \<Rightarrow> (error + 'r option) \<times> ('x, 'c) ExcludeRegionState" where
  "handlerFor C name =
     (if name = ''G0'' then handle_G0 C
      else if name = ''G1'' then handle_G1 C
      else if name = ''G2'' then handle_G2 C
      else if name = ''G3'' then handle_G3 C
      else if name = ''G10'' then handle_G10 C
      else if name = ''G11'' then handle_G11 C
      else if name = ''G20'' then handle_G20 C
      else if name = ''G21'' then handle_G21 C
      else if name = ''G28'' then handle_G28 C
      else if name = ''G90'' then handle_G90 C
      else if name = ''G91'' then handle_G91 C
      else if name = ''G92'' then handle_G92 C
      else if name = ''M206'' then handle_M206 C
      else (\<lambda>cmd gcode subcode s.
              case processExtendedGcode C cmd gcode subcode s of (r, s') \<Rightarrow> (Inr r, s')))"

definition handleGcode ::
  "('x, 'c, 'r) Collaborators \<Rightarrow> string \<Rightarrow> string \<Rightarrow> string option \<Rightarrow>
   ('x, 'c) ExcludeRegionState \<Rightarrow> (error + 'r option) \<times> ('x, 'c) ExcludeRegionState" where
  "handleGcode C cmd gcode subcode s =
     (let s1 = s\<lparr>numCommands := numCommands s + 1\<rparr>
      in handlerFor C gcode cmd gcode subcode s1)"

subsection \<open>Notions used by the statements\<close>

text \<open>
  A collaborator leaves the command counter alone: no method of the state object writes
  \<^verbatim>\<open>numCommands\<close>.
\<close>

definition preservesNumCommands :: "('x, 'c, 'r) Collaborators \<Rightarrow> bool" where
  "preservesNumCommands C \<longleftrightarrow>
     (\<forall>cmd e f z xy s. numCommands (snd (processLinearMoves C cmd e f z xy s)) = numCommands s)
   \<and> (\<forall>cmd gcode subcode s.
         numCommands (snd (processExtendedGcode C cmd gcode subcode s)) = numCommands s)
   \<and> (\<forall>r s. numCommands (snd (recordRetraction C r s)) = numCommands s)
   \<and> (\<forall>cmd fw s. numCommands (snd (recoverRetractionIfNeeded C cmd fw s)) = numCommands s)
   \<and> (\<forall>s. numCommands (snd (ignoreGcodeCommand C s)) = numCommands s)
   \<and> (\<forall>m s. numCommands (setUnitMultiplier C m s) = numCommands s)
   \<and> (\<forall>b s. numCommands (setAbsoluteMode C b s) = numCommands s)"





subsection \<open>A concrete state and concrete collaborators\<close>

definition originAxis :: "unit AxisPosition" where
  "originAxis = \<lparr>current = 0, internals = ()\<rparr>"

definition originState :: "(unit, unit) ExcludeRegionState" where
  "originState =
     \<lparr>numCommands = 0,
      position = \<lparr>X_AXIS = originAxis, Y_AXIS = originAxis, Z_AXIS = originAxis,
                  E_AXIS = originAxis\<rparr>,
      privateState = ()\<rparr>"

definition sampleCollaborators :: "(unit, unit, string list) Collaborators" where
  "sampleCollaborators =
     \<lparr>logicalToNative = (\<lambda>axis v. v),
      setHome = (\<lambda>axis. axis\<lparr>current := 0\<rparr>),
      setLogicalPosition = (\<lambda>v axis. axis\<lparr>current := v\<rparr>),
      setLogicalOffsetPosition = (\<lambda>v axis. axis),
      setHomeOffset = (\<lambda>v axis. axis),
      processLinearMoves = (\<lambda>cmd e f z xy s. (None, s)),
      processExtendedGcode = (\<lambda>cmd gcode subcode s. (None, s)),
      recordRetraction = (\<lambda>r s. (None, s)),
      recoverRetractionIfNeeded = (\<lambda>cmd fw s. (None, s)),
      ignoreGcodeCommand = (\<lambda>s. (Some [], s)),
      setUnitMultiplier = (\<lambda>m s. s),
      setAbsoluteMode = (\<lambda>b s. s)\<rparr>"


section \<open>Properties\<close>

subsection \<open>planArc: the segment count and the division\<close>

lemma quarter_pi_ceiling: "\<lceil>pi / 4\<rceil> = 1"
proof -
  have "0 < pi / 4" by simp
  moreover have "pi / 4 \<le> 1" using pi_less_4 by simp
  ultimately show ?thesis by (simp add: ceiling_eq_iff)
qed

text \<open>
  A counter-clockwise arc from (0, 0) about the centre (1, 0) to (0, -1): the angular
  travel is a quarter of pi, the arc length is below 1, and the segment count is 1.
\<close>

lemma short_arc_travel: "angularTravel 0 0 0 (- 1) 1 0 False = pi / 4"
  using pi_gt_zero
  by (simp add: angularTravel_def rawAngularTravel_def atan2_def arctan_one TWO_PI_def Let_def)

lemma short_arc_segments: "numSegments 0 0 0 (- 1) 1 0 False = 1"
  by (simp add: numSegments_def short_arc_travel hypot_def MM_PER_ARC_SEGMENT_def
      quarter_pi_ceiling)

lemma arcLoop_length:
  "length (arcLoop n angle inc cx cy r rval) = length rval + 2 * n"
  by (induction n arbitrary: angle rval) (simp_all add: Let_def)

text \<open>
  Whenever planArc returns, the list has an even length and ends with the end point.
\<close>

lemma planArc_returns_shape:
  assumes "planArc s endX endY i j clockwise = Inr rval"
  shows "even (length rval) \<and> drop (length rval - 2) rval = [endX, endY]"
  using assms
  by (auto simp: planArc_def Let_def arcLoop_length split: sum.splits)

text \<open>
  Claim C1 (every call of planArc with a centre offset other than (0, 0) returns an
  even-length list that ends with endX, endY). The code does not return on the short
  arc above: with the tool at (0, 0), \<^verbatim>\<open>planArc(0, -1, 1, 0, False)\<close> raises
  \<^verbatim>\<open>ZeroDivisionError\<close> at line 109, so no list is returned.
\<close>

theorem planArc_short_arc_raises:
  "planArc originState 0 (- 1) 1 0 False = Inl ZeroDivisionError"
  by (simp add: planArc_def originState_def originAxis_def short_arc_segments float_div_def
      Let_def)

text \<open>
  Claim C2 (planArc raises no error; the divisor, segment count minus 1, is never zero).
  On the same short arc the segment count \<^verbatim>\<open>int(min(ceil(arcLength), 2))\<close> is 1, the
  divisor is 0 and the division of line 109 raises.
\<close>

theorem planArc_divisor_zero:
  "numSegments 0 0 0 (- 1) 1 0 False - 1 = 0 \<and>
   float_div (angularTravel 0 0 0 (- 1) 1 0 False)
     (real_of_int (numSegments 0 0 0 (- 1) 1 0 False - 1)) = Inl ZeroDivisionError"
  by (simp add: short_arc_segments float_div_def)

subsection \<open>planArc: the full circle\<close>






subsection \<open>_computeCenterOffsets\<close>

lemma hypot_6_0: "hypot 6 0 = 6"
proof -
  have "sqrt (6 * 6) = (6::real)" by (rule real_sqrt_unique) simp_all
  then show ?thesis by (simp add: hypot_def)
qed

text \<open>
  Claim C4 (the direction flag is +1 or -1). Python's \<^verbatim>\<open>^\<close> is the bitwise exclusive or
  of the two integers, so a clockwise arc gets the flag 0 (positive radius) or -2
  (negative radius); only a counter-clockwise arc gets 1 or -1.
\<close>

theorem directionFlag_clockwise:
  "directionFlag True 5 = 0 \<and> directionFlag True (- 5) = - 2 \<and>
   directionFlag False 5 = 1 \<and> directionFlag False (- 5) = - 1"
  by (simp add: directionFlag_def)

text \<open>
  With the flag 0 the centre is the middle of the chord: clockwise from (0, 0) to (6, 0)
  with radius 5 the offsets are (3, 0), at distance 3 from both points.
\<close>

lemma computeCenterOffsets_clockwise_midpoint:
  "computeCenterOffsets originState 6 0 5 True = Inr (3, 0)"
  by (simp add: directionFlag_def computeCenterOffsets_def originState_def originAxis_def
      hypot_6_0 Let_def math_sqrt_def float_div_def)

text \<open>
  No statement is made here about the domain error of line 220. Whether \<^verbatim>\<open>math.sqrt\<close>
  raises depends on the sign of the difference of two rounded squares, which is 0 on the
  boundary where the exact difference is negative, and which is NaN (passed on without an
  error) when both squares overflow. The real-valued \<open>math_sqrt\<close> above represents neither.
\<close>

subsection \<open>handleGcode: the command counter\<close>

lemma handle_G0_count:
  "preservesNumCommands C \<Longrightarrow>
   numCommands (snd (handle_G0 C cmd gcode subcode s)) = numCommands s"
  unfolding preservesNumCommands_def handle_G0_def Let_def
  by (metis (no_types, lifting) case_prod_beta snd_conv)

lemma handle_G2_count:
  "preservesNumCommands C \<Longrightarrow>
   numCommands (snd (handle_G2 C cmd gcode subcode s)) = numCommands s"
  unfolding preservesNumCommands_def handle_G2_def Let_def
  by (auto split: sum.splits option.splits prod.splits) (metis snd_conv)+

lemma handle_G10_count:
  "preservesNumCommands C \<Longrightarrow>
   numCommands (snd (handle_G10 C cmd gcode subcode s)) = numCommands s"
  unfolding preservesNumCommands_def handle_G10_def
  by (auto split: sum.splits option.splits prod.splits bool.splits) (metis snd_conv)+

lemma handle_G11_count:
  "preservesNumCommands C \<Longrightarrow>
   numCommands (snd (handle_G11 C cmd gcode subcode s)) = numCommands s"
  unfolding preservesNumCommands_def handle_G11_def
  by (auto split: sum.splits option.splits prod.splits) (metis snd_conv)+

lemma handle_G28_count:
  "numCommands (snd (handle_G28 C cmd gcode subcode s)) = numCommands s"
  by (simp add: handle_G28_def Let_def split: prod.splits)

lemma fallback_count:
  "preservesNumCommands C \<Longrightarrow>
   numCommands (snd (case processExtendedGcode C cmd gcode subcode s of
                       (r, s') \<Rightarrow> (Inr r :: error + 'r option, s')))
     = numCommands s"
  unfolding preservesNumCommands_def
  by (metis (no_types, lifting) case_prod_beta snd_conv)

lemma handlerFor_count:
  assumes "preservesNumCommands C"
  shows "numCommands (snd (handlerFor C name cmd gcode subcode s)) = numCommands s"
proof -
  have simple: "numCommands (setUnitMultiplier C m s) = numCommands s"
    "numCommands (setAbsoluteMode C b s) = numCommands s" for m b
    using assms by (simp_all add: preservesNumCommands_def)
  show ?thesis
    unfolding handlerFor_def
    using assms simple
    by (simp add: handle_G0_count handle_G1_def handle_G2_count handle_G3_def handle_G10_count
        handle_G11_count handle_G20_def handle_G21_def handle_G28_count handle_G90_def
        handle_G91_def handle_G92_def handle_M206_def fallback_count)
qed

text \<open>
  Claim C3: for every command string and every operation code, handleGcode adds exactly 1
  to the command counter, whatever the handler returns or raises, and the handler already
  runs on the state with the incremented counter. The collaborators are assumed not to
  write the counter themselves.
\<close>

theorem handleGcode_counts_once:
  assumes "preservesNumCommands C"
  shows "numCommands (snd (handleGcode C cmd gcode subcode s)) = numCommands s + 1
       \<and> handleGcode C cmd gcode subcode s
           = handlerFor C gcode cmd gcode subcode (s\<lparr>numCommands := numCommands s + 1\<rparr>)"
  using handlerFor_count [OF assms]
  by (simp add: handleGcode_def Let_def)

theorem handleGcode_counts_once_witness:
  "preservesNumCommands sampleCollaborators
   \<and> numCommands (snd (handleGcode sampleCollaborators ''G1 X10'' ''G1'' None originState)) = 1
   \<and> numCommands (snd (handleGcode sampleCollaborators ''M117 hello'' ''M117'' None originState)) = 1"
proof -
  have p: "preservesNumCommands sampleCollaborators"
    by (simp add: preservesNumCommands_def sampleCollaborators_def)
  have z: "numCommands originState = 0"
    by (simp add: originState_def)
  show ?thesis
    using p
      handleGcode_counts_once [OF p, of "''G1 X10''" "''G1''" None originState, THEN conjunct1]
      handleGcode_counts_once [OF p, of "''M117 hello''" "''M117''" None originState, THEN conjunct1]
    by (simp add: z)
qed

subsection \<open>_handle_G10\<close>

lemma split_G10_P1: "REGEX_SPLIT_split ''G10 P1'' = [''G10'', [], ''P1'']"
  by code_simp

text \<open>
  Claim C8 (a G10 command with a P or L argument passes through; any other G10 command is
  recorded as a firmware retraction). The pieces of \<^verbatim>\<open>G10 P1\<close> are \<^verbatim>\<open>G10\<close>, the empty
  string and \<^verbatim>\<open>P1\<close>: the split pattern matches the blank, and then matches the empty
  string before the letter P. Line 304 reads the first character of the empty piece and
  raises \<^verbatim>\<open>IndexError\<close>.
\<close>

theorem handle_G10_P1_raises:
  "handle_G10 C ''G10 P1'' ''G10'' None s = (Inl IndexError, s)"
  by (simp add: handle_G10_def split_G10_P1)

text \<open>
  Where no piece is empty the handler does what the claim says: an argument written
  without a blank before it is found, and a command without arguments is recorded.
\<close>

lemma split_G10_joined: "REGEX_SPLIT_split ''G10P1'' = [''G10'', ''P1'']"
  by code_simp

lemma toUpper_P: "toUpper CHR ''P'' = CHR ''P''"
  by code_simp

lemma handle_G10_joined_passes:
  "handle_G10 C ''G10P1'' ''G10'' None s = (Inr None, s)"
  by (simp add: handle_G10_def split_G10_joined toUpper_P)

lemma split_G10_bare: "REGEX_SPLIT_split ''G10'' = [''G10'']"
  by code_simp

lemma handle_G10_bare_records:
  "handle_G10 C ''G10'' ''G10'' None s =
     (case recordRetraction C \<lparr>firmwareRetract = True, originalCommand = ''G10''\<rparr> s of
        (None, s') \<Rightarrow> (case ignoreGcodeCommand C s' of (r, s'') \<Rightarrow> (Inr r, s''))
      | (Some returnCommands, s') \<Rightarrow> (Inr (Some returnCommands), s'))"
  by (simp add: handle_G10_def split_G10_bare)

subsection \<open>_handle_G2 and _handle_G3: zero offsets\<close>



























subsection \<open>The handlers that only change the state\<close>

lemma handlerFor_simps:
  "handlerFor C ''G20'' = handle_G20 C"
  "handlerFor C ''G21'' = handle_G21 C"
  "handlerFor C ''G28'' = handle_G28 C"
  "handlerFor C ''G90'' = handle_G90 C"
  "handlerFor C ''G91'' = handle_G91 C"
  "handlerFor C ''G92'' = handle_G92 C"
  "handlerFor C ''M206'' = handle_M206 C"
  by (simp_all add: handlerFor_def)

lemma handle_G28_result:
  "fst (handle_G28 C cmd gcode subcode s) = Inr None
   \<and> snd (handle_G28 C cmd gcode subcode s)
       = s\<lparr>position := position (snd (handle_G28 C cmd gcode subcode s))\<rparr>"
  by (simp add: handle_G28_def Let_def split: prod.splits)

text \<open>
  Claim C10: the handlers of G20, G21, G28, G90, G91, G92 and M206 return \<^verbatim>\<open>None\<close> for
  every command, directly and through handleGcode. G20, G21, G90 and G91 leave the state
  that the collaborator's setter returns; the others change the position only.
\<close>

theorem passthrough_handlers:
  assumes "name \<in> {''G20'', ''G21'', ''G28'', ''G90'', ''G91'', ''G92'', ''M206''}"
  shows "fst (handlerFor C name cmd gcode subcode s) = Inr None
       \<and> fst (handleGcode C cmd name subcode s) = Inr None
       \<and> snd (handlerFor C name cmd gcode subcode s) =
              (if name = ''G20'' then setUnitMultiplier C INCHES_PER_MM s
               else if name = ''G21'' then setUnitMultiplier C 1 s
               else if name = ''G90'' then setAbsoluteMode C True s
               else if name = ''G91'' then setAbsoluteMode C False s
               else s\<lparr>position := position (snd (handlerFor C name cmd gcode subcode s))\<rparr>)"
proof -
  consider "name = ''G20''" | "name = ''G21''" | "name = ''G28''" | "name = ''G90''"
    | "name = ''G91''" | "name = ''G92''" | "name = ''M206''"
    using assms by blast
  then show ?thesis
  proof cases
    case 1
    then show ?thesis by (simp add: handleGcode_def handlerFor_simps handle_G20_def)
  next
    case 2
    then show ?thesis by (simp add: handleGcode_def handlerFor_simps handle_G21_def)
  next
    case 3
    then show ?thesis
      using handle_G28_result [of C cmd gcode subcode s]
        handle_G28_result [of C cmd name subcode "s\<lparr>numCommands := numCommands s + 1\<rparr>"]
      by (simp add: handleGcode_def handlerFor_simps)
  next
    case 4
    then show ?thesis by (simp add: handleGcode_def handlerFor_simps handle_G90_def)
  next
    case 5
    then show ?thesis by (simp add: handleGcode_def handlerFor_simps handle_G91_def)
  next
    case 6
    then show ?thesis by (simp add: handleGcode_def handlerFor_simps handle_G92_def)
  next
    case 7
    then show ?thesis by (simp add: handleGcode_def handlerFor_simps handle_M206_def)
  qed
qed

theorem passthrough_handlers_witness:
  "fst (handleGcode sampleCollaborators ''G28 X'' ''G28'' None originState) = Inr None
   \<and> fst (handleGcode sampleCollaborators ''G92 E0'' ''G92'' None originState) = Inr None"
  using passthrough_handlers [of "''G28''" sampleCollaborators "''G28 X''" "''G28''" None originState]
    passthrough_handlers [of "''G92''" sampleCollaborators "''G92 E0''" "''G92''" None originState]
  by simp

subsection \<open>The tokenizer\<close>

lemma of_char_toUpper:
  "(of_char (toUpper c) :: nat) =
     (if 97 \<le> (of_char c :: nat) \<and> (of_char c :: nat) \<le> 122 then of_char c - 32 else of_char c)"
proof (cases "97 \<le> (of_char c :: nat) \<and> (of_char c :: nat) \<le> 122")
  case True
  then have "(of_char c :: nat) - 32 < 256" by arith
  then have "(of_char (char_of ((of_char c :: nat) - 32)) :: nat) = of_char c - 32"
    by (simp add: of_char_of)
  with True show ?thesis by (simp add: toUpper_def Let_def)
next
  case False
  then show ?thesis by (auto simp: toUpper_def Let_def)
qed

lemma isLetter_toUpper [simp]: "isLetter (toUpper c) = isLetter c"
  by (auto simp: isLetter_def of_char_toUpper Let_def)

lemma isSpace_toUpper [simp]: "isSpace (toUpper c) = isSpace c"
  by (auto simp: isSpace_def of_char_toUpper Let_def)

lemma isDigit_toUpper [simp]: "isDigit (toUpper c) = isDigit c"
  by (auto simp: isDigit_def of_char_toUpper Let_def)

lemma toUpper_idem [simp]: "toUpper (toUpper c) = toUpper c"
  by (auto simp: toUpper_def [of "toUpper c"] of_char_toUpper Let_def)

lemma toUpper_fixed: "\<not> isLetter c \<Longrightarrow> toUpper c = c"
  by (auto simp: toUpper_def isLetter_def Let_def)

lemma toUpper_eq_nonletter: "\<not> isLetter d \<Longrightarrow> toUpper c = d \<longleftrightarrow> c = d"
  by (metis isLetter_toUpper toUpper_fixed)

lemma nonletter_chars:
  "\<not> isLetter CHR ''.''" "\<not> isLetter CHR ''-''" "\<not> isLetter CHR ''+''"
  by (simp_all add: isLetter_def)

lemma isDigit_not_letter: "isDigit c \<Longrightarrow> \<not> isLetter c"
  by (auto simp: isDigit_def isLetter_def Let_def)

lemma dropWhile_isSpace_upper: "dropWhile isSpace (upper cs) = upper (dropWhile isSpace cs)"
  by (induction cs) (simp_all add: upper_def)

lemma dropWhile_isDigit_upper: "dropWhile isDigit (upper cs) = upper (dropWhile isDigit cs)"
  by (induction cs) (simp_all add: upper_def)

lemma takeWhile_isDigit_upper: "takeWhile isDigit (upper cs) = takeWhile isDigit cs"
  by (induction cs) (simp_all add: upper_def toUpper_fixed isDigit_not_letter)

lemma letter_case_upper:
  "(case upper ds of [] \<Rightarrow> None | c # r \<Rightarrow> if isLetter c then Some (c # r) else None)
     = map_option upper
         (case ds of [] \<Rightarrow> None | c # r \<Rightarrow> if isLetter c then Some (c # r) else None)"
  by (cases ds) (simp_all add: upper_def)

lemma REGEX_SPLIT_match_upper:
  "REGEX_SPLIT_match atStart (upper cs) = map_option upper (REGEX_SPLIT_match atStart cs)"
  by (simp add: REGEX_SPLIT_match_def dropWhile_isSpace_upper letter_case_upper)

lemma splitLoop_upper:
  "splitLoop atStart mustAdvance (upper tok) (upper cs)
     = map upper (splitLoop atStart mustAdvance tok cs)"
proof (induction atStart mustAdvance tok cs rule: splitLoop.induct)
  case (1 atStart mustAdvance tok)
  then show ?case by (simp add: upper_def)
next
  case (2 atStart mustAdvance tok c cs)
  have m: "REGEX_SPLIT_match atStart (toUpper c # upper cs)
             = map_option upper (REGEX_SPLIT_match atStart (c # cs))"
    using REGEX_SPLIT_match_upper [of atStart "c # cs"] by (simp add: upper_def)
  have app: "upper tok @ [toUpper c] = upper (tok @ [c])"
    by (simp add: upper_def)
  have up: "upper (c # cs) = toUpper c # upper cs" "upper [] = []" "length (upper r) = length r" for r
    by (simp_all add: upper_def)
  show ?case
  proof (cases "REGEX_SPLIT_match atStart (c # cs)")
    case None
    then show ?thesis
      using "2.IH"(1) m by (simp add: up app)
  next
    case (Some r)
    show ?thesis
    proof (cases "length r = length (c # cs)")
      case True
      then show ?thesis
        using Some m "2.IH"(2) [OF Some True] "2.IH"(3) [OF Some True]
        by (cases mustAdvance) (simp_all add: up app)
    next
      case False
      then show ?thesis
        using Some m "2.IH"(4) [OF Some False]
        by (simp add: up app)
    qed
  qed
qed

lemma REGEX_SPLIT_split_upper:
  "REGEX_SPLIT_split (upper cmd) = map upper (REGEX_SPLIT_split cmd)"
  using splitLoop_upper [of True False "[]" cmd]
  by (simp add: REGEX_SPLIT_split_def upper_def)

lemma fraction_case_upper:
  "(case upper r of [] \<Rightarrow> w
    | c # r' \<Rightarrow>
        if c = CHR ''.'' \<and> takeWhile isDigit r' \<noteq> [] then Some (ds @ c # takeWhile isDigit r')
        else w)
     = (case r of [] \<Rightarrow> w
        | c # r' \<Rightarrow>
            if c = CHR ''.'' \<and> takeWhile isDigit r' \<noteq> [] then Some (ds @ c # takeWhile isDigit r')
            else w)"
proof (cases r)
  case Nil
  then show ?thesis by (simp add: upper_def)
next
  case (Cons c r')
  have t: "takeWhile isDigit (map toUpper r') = takeWhile isDigit r'"
    using takeWhile_isDigit_upper [of r'] by (simp add: upper_def)
  have d: "toUpper c = CHR ''.'' \<longleftrightarrow> c = CHR ''.''"
    by (simp add: toUpper_eq_nonletter nonletter_chars)
  show ?thesis
    using Cons t d by (auto simp: upper_def)
qed

lemma unsignedMatch_upper: "unsignedMatch (upper cs) = unsignedMatch cs"
  by (simp add: unsignedMatch_def Let_def dropWhile_isDigit_upper takeWhile_isDigit_upper
      fraction_case_upper)

lemma REGEX_FLOAT_PATTERN_match_upper:
  "REGEX_FLOAT_PATTERN_match (upper cs) = REGEX_FLOAT_PATTERN_match cs"
proof (cases cs)
  case Nil
  then show ?thesis by (simp add: upper_def)
next
  case (Cons c r)
  have u: "unsignedMatch (map toUpper r) = unsignedMatch r"
    "unsignedMatch (toUpper c # map toUpper r) = unsignedMatch (c # r)"
    using unsignedMatch_upper [of r] unsignedMatch_upper [of "c # r"] by (simp_all add: upper_def)
  have sign: "toUpper c = CHR ''-'' \<or> toUpper c = CHR ''+'' \<longleftrightarrow> c = CHR ''-'' \<or> c = CHR ''+''"
    by (simp add: toUpper_eq_nonletter nonletter_chars)
  show ?thesis
  proof (cases "c = CHR ''-'' \<or> c = CHR ''+''")
    case True
    then have "toUpper c = c" by (auto simp: toUpper_fixed nonletter_chars)
    with True Cons u show ?thesis
      by (simp add: REGEX_FLOAT_PATTERN_match_def upper_def split: option.splits)
  next
    case False
    with sign have "\<not> (toUpper c = CHR ''-'' \<or> toUpper c = CHR ''+'')" by blast
    with False Cons u show ?thesis
      by (simp add: REGEX_FLOAT_PATTERN_match_def upper_def)
  qed
qed

lemma REGEX_FLOAT_ARG_search_upper:
  "REGEX_FLOAT_ARG_search (upper tok)
     = map_option (\<lambda>(l, v). (toUpper l, v)) (REGEX_FLOAT_ARG_search tok)"
proof (cases tok)
  case Nil
  then show ?thesis by (simp add: REGEX_FLOAT_ARG_search_def upper_def)
next
  case (Cons l r)
  have "REGEX_FLOAT_PATTERN_match (dropWhile isSpace (map toUpper r))
          = REGEX_FLOAT_PATTERN_match (dropWhile isSpace r)"
    using dropWhile_isSpace_upper [of r] REGEX_FLOAT_PATTERN_match_upper [of "dropWhile isSpace r"]
    by (simp add: upper_def)
  with Cons show ?thesis
    by (simp add: REGEX_FLOAT_ARG_search_def upper_def split: option.splits)
qed

lemma G0_arg_upper: "G0_arg a (upper tok) = G0_arg a tok"
  by (cases "REGEX_FLOAT_ARG_search tok")
     (auto simp: G0_arg_def REGEX_FLOAT_ARG_search_upper Let_def)

lemma foldl_G0_arg_upper: "foldl G0_arg a (map upper toks) = foldl G0_arg a toks"
  by (induction toks arbitrary: a) (simp_all add: G0_arg_upper)

lemma G0_args_upper: "G0_args (upper cmd) = G0_args cmd"
  by (simp add: G0_args_def REGEX_SPLIT_split_upper drop_map foldl_G0_arg_upper)

lemma split_G1_example:
  "REGEX_SPLIT_split ''G1 X10 Y-5.5 E0.3 F1500''
     = [''G1'', [], ''X10'', [], ''Y-5.5'', [], ''E0.3'', [], ''F1500'']"
  by code_simp

lemma search_G1_example:
  "REGEX_FLOAT_ARG_search [] = None"
  "REGEX_FLOAT_ARG_search ''X10'' = Some (CHR ''X'', ''10'')"
  "REGEX_FLOAT_ARG_search ''Y-5.5'' = Some (CHR ''Y'', ''-5.5'')"
  "REGEX_FLOAT_ARG_search ''E0.3'' = Some (CHR ''E'', ''0.3'')"
  "REGEX_FLOAT_ARG_search ''F1500'' = Some (CHR ''F'', ''1500'')"
  by code_simp+

lemma float_G1_example:
  "float ''10'' = 10" "float ''-5.5'' = - 5.5" "float ''0.3'' = 0.3" "float ''1500'' = 1500"
  by (simp_all add: float_def unsignedFloat_def digitsValue_def isDigit_def)

lemma toUpper_G1_example:
  "toUpper CHR ''X'' = CHR ''X''" "toUpper CHR ''Y'' = CHR ''Y''"
  "toUpper CHR ''E'' = CHR ''E''" "toUpper CHR ''F'' = CHR ''F''"
  by code_simp+

lemma G0_args_example:
  "G0_args ''G1 X10 Y-5.5 E0.3 F1500''
     = \<lparr>extruderPosition = Some 0.3, feedRate = Some 1500, xArg = Some 10,
        yArg = Some (- 5.5), zArg = None\<rparr>"
  by (simp add: G0_args_def split_G1_example G0_arg_def search_G1_example float_G1_example
      toUpper_G1_example noLinearArgs_def)

text \<open>
  Claim C9: the arguments parsed from \<^verbatim>\<open>G1 X10 Y-5.5 E0.3 F1500\<close> are E = 0.3,
  F = 1500, X = 10 and Y = -5.5 (and no Z); and two commands that differ only in the case
  of their letters are parsed to the same arguments.
\<close>

theorem G0_args_tokenizing:
  "G0_args ''G1 X10 Y-5.5 E0.3 F1500''
     = \<lparr>extruderPosition = Some 0.3, feedRate = Some 1500, xArg = Some 10,
        yArg = Some (- 5.5), zArg = None\<rparr>
   \<and> (upper cmd1 = upper cmd2 \<longrightarrow> G0_args cmd1 = G0_args cmd2)"
proof -
  have "G0_args cmd1 = G0_args cmd2" if "upper cmd1 = upper cmd2"
    using that by (metis G0_args_upper)
  then show ?thesis
    using G0_args_example by blast
qed

lemma upper_G1_example: "upper ''G1 x10'' = upper ''G1 X10''"
  by code_simp

theorem G0_args_tokenizing_witness:
  "G0_args ''G1 x10'' = G0_args ''G1 X10''"
  using G0_args_tokenizing [of "''G1 x10''" "''G1 X10''"] upper_G1_example
  by simp

end
